theory Spec2Isabelle
  imports Main "HOL-Library.Multiset" "HOL-Library.Sublist"
begin

section \<open>The status icon plugin of the Bluetooth applet\<close>

text \<open>
  A shallow embedding of \<^verbatim>\<open>blueman/plugins/applet/StatusIcon.py\<close>. The plugin object,
  the bus it emits signals on and the main loop it registers its timer with are one
  record, passed through every method and returned updated. What the plugin only
  queries (the adapters of the Bluetooth manager, the loaded plugins, the settings
  store, the translation catalogue) is a second record, \<open>env\<close>, read and never written.
\<close>

subsection \<open>Python values and helpers\<close>

text \<open>
  The attributes \<^verbatim>\<open>visible\<close>, \<^verbatim>\<open>_tooltip_title\<close> and \<^verbatim>\<open>_tooltip_text\<close> are untyped
  Python attributes that are handed to the bus as they are; \<open>pyval\<close> holds what they
  can contain.
\<close>

datatype pyval = PyNone | PyBool bool | PyStr string

text \<open>Python's built-in \<^verbatim>\<open>any\<close> over booleans: the first true element decides.\<close>

fun py_any :: "bool list \<Rightarrow> bool" where
  "py_any [] = False"
| "py_any (b # bs) = (if b then True else py_any bs)"

text \<open>Truth value of an \<^verbatim>\<open>Optional[int]\<close>: \<^verbatim>\<open>None\<close> and \<^verbatim>\<open>0\<close> are false.\<close>

fun truthy :: "nat option \<Rightarrow> bool" where
  "truthy None = False"
| "truthy (Some n) = (n \<noteq> 0)"

text \<open>
  \<^verbatim>\<open>str.replace(old, new)\<close>: one scan from the left; where \<^verbatim>\<open>old\<close> starts, \<^verbatim>\<open>new\<close> is
  written and the scan goes on behind the occurrence. An empty \<^verbatim>\<open>old\<close> matches before
  every character and at the end.
\<close>

function py_replace :: "string \<Rightarrow> string \<Rightarrow> string \<Rightarrow> string" where
  "py_replace old new [] = (if old = [] then new else [])"
| "py_replace old new (c # cs) =
     (if old = [] then new @ c # py_replace old new cs
      else if take (length old) (c # cs) = old
        then new @ py_replace old new (drop (length old) (c # cs))
      else c # py_replace old new cs)"
  by pat_completeness auto
termination
  by (relation "measure (\<lambda>(old, new, s). length s)") auto

text \<open>
  \<^verbatim>\<open>sorted(xs, key=key, reverse=True)\<close>: a stable sort; with \<^verbatim>\<open>reverse\<close> the list is
  reversed, sorted in ascending order of the key, and reversed again, so that elements
  with equal keys keep the order they came in.
\<close>

definition py_sorted_reverse :: "('a \<Rightarrow> int) \<Rightarrow> 'a list \<Rightarrow> 'a list" where
  "py_sorted_reverse key xs = rev (sort_key key (rev xs))"

subsection \<open>What the plugin queries\<close>

text \<open>
  A loaded plugin, seen through the three hook classes of this file. A field is \<open>None\<close>
  when the plugin is not an instance of the class, otherwise it holds what the hook
  returns.
\<close>

record plugin =
  on_query_status_icon_implementation :: "(string \<times> int) option"
  on_query_force_status_icon_visibility :: "bool option"
  on_status_icon_query_icon :: "string option option"

record env =
  get_adapters :: "string list"
  loaded_plugins :: "plugin list"
  symbolic_status_icons :: bool
  manager_state :: bool
  gettext :: "string \<Rightarrow> string"

text \<open>
  Modelled from the spec: the plugin-loading host (\<^verbatim>\<open>PluginManager.get_loaded_plugins\<close>,
  not among the sources) is an external collaborator that is merely queried. It is taken
  as the list of loaded plugins, in load order, restricted to the instances of the class
  asked for; each of the three functions below returns the hook results of one class.
\<close>

definition implementation_providers :: "env \<Rightarrow> (string \<times> int) list" where
  "implementation_providers e =
     List.map_filter on_query_status_icon_implementation (loaded_plugins e)"

definition visibility_handlers :: "env \<Rightarrow> bool list" where
  "visibility_handlers e =
     List.map_filter on_query_force_status_icon_visibility (loaded_plugins e)"

definition icon_providers :: "env \<Rightarrow> string option list" where
  "icon_providers e = List.map_filter on_status_icon_query_icon (loaded_plugins e)"

subsection \<open>The state\<close>

text \<open>The invocations of the three setters, kept as a history.\<close>

datatype call =
    Called_set_visible bool
  | Called_set_tooltip_title string
  | Called_set_tooltip_text "string option"

text \<open>
  \<open>visible\<close> to \<open>tooltip_text\<close> are the attributes of the plugin object. \<open>signals\<close> is
  the bus: every signal emitted so far, with its argument. \<open>sources\<close> and
  \<open>last_source_id\<close> are the main loop: the pending timeouts (identifier and interval in
  milliseconds) and the last identifier handed out. \<open>launched\<close> lists the programs
  started. \<open>history\<close> is a history variable that no method reads.
\<close>

record state =
  visible :: pyval
  visibility_timeout :: "nat option"
  implementations :: "string list option"
  tooltip_title :: pyval
  tooltip_text :: pyval
  signals :: "(string \<times> pyval) list"
  sources :: "(nat \<times> nat) list"
  last_source_id :: nat
  launched :: "string list"
  history :: "call list"

text \<open>
  Modelled from the spec: \<^verbatim>\<open>_emit_dbus_signal\<close> of the plugin base class (not among the
  sources) broadcasts an event on the bus; the model appends it to the log of signals.
\<close>

definition emit_dbus_signal :: "string \<Rightarrow> pyval \<Rightarrow> state \<Rightarrow> state" where
  "emit_dbus_signal name arg s = s\<lparr>signals := signals s @ [(name, arg)]\<rparr>"

text \<open>
  The main loop's \<^verbatim>\<open>timeout_add\<close> registers a source and returns its identifier, which
  is greater than 0; \<^verbatim>\<open>source_remove\<close> drops the source with the given identifier.
\<close>

definition timeout_add :: "nat \<Rightarrow> state \<Rightarrow> nat \<times> state" where
  "timeout_add interval s =
     (let i = Suc (last_source_id s)
      in (i, s\<lparr>sources := sources s @ [(i, interval)], last_source_id := i\<rparr>))"

definition source_remove :: "nat \<Rightarrow> state \<Rightarrow> state" where
  "source_remove i s = s\<lparr>sources := filter (\<lambda>src. fst src \<noteq> i) (sources s)\<rparr>"

definition launch :: "string \<Rightarrow> state \<Rightarrow> state" where
  "launch cmd s = s\<lparr>launched := launched s @ [cmd]\<rparr>"

subsection \<open>The methods of \<^verbatim>\<open>StatusIcon\<close>\<close>

definition set_visible :: "bool \<Rightarrow> bool \<Rightarrow> state \<Rightarrow> state" where
  "set_visible v emit s =
     (let s1 = s\<lparr>visible := PyBool v, history := history s @ [Called_set_visible v]\<rparr>
      in if emit then emit_dbus_signal ''VisibilityChanged'' (PyBool v) s1 else s1)"

definition set_tooltip_title :: "string \<Rightarrow> state \<Rightarrow> state" where
  "set_tooltip_title title s =
     emit_dbus_signal ''ToolTipTitleChanged'' (PyStr title)
       (s\<lparr>tooltip_title := PyStr title,
          history := history s @ [Called_set_tooltip_title title]\<rparr>)"

definition set_tooltip_text :: "string option \<Rightarrow> state \<Rightarrow> state" where
  "set_tooltip_text text s =
     (let s1 = s\<lparr>tooltip_text := (case text of None \<Rightarrow> PyStr [] | Some t \<Rightarrow> PyStr t),
                 history := history s @ [Called_set_tooltip_text text]\<rparr>
      in emit_dbus_signal ''ToolTipTextChanged'' (tooltip_text s1) s1)"

definition query_visibility :: "env \<Rightarrow> bool \<Rightarrow> bool \<Rightarrow> state \<Rightarrow> state" where
  "query_visibility e delay_hiding emit s =
     (if get_adapters e \<noteq> [] \<or> py_any (visibility_handlers e) then set_visible True emit s
      else if \<not> truthy (visibility_timeout s) then
        (if delay_hiding then
           (let (i, s1) = timeout_add 2500 s in s1\<lparr>visibility_timeout := Some i\<rparr>)
         else set_visible False emit s)
      else s)"

datatype error = AssertionError

definition on_visibility_timeout :: "env \<Rightarrow> state \<Rightarrow> error + (bool \<times> state)" where
  "on_visibility_timeout e s =
     (case visibility_timeout s of
        None \<Rightarrow> Inl AssertionError
      | Some i \<Rightarrow>
          Inr (False,
            query_visibility e False True ((source_remove i s)\<lparr>visibility_timeout := None\<rparr>)))"

definition get_status_icon_implementations :: "env \<Rightarrow> string list" where
  "get_status_icon_implementations e =
     map fst (py_sorted_reverse snd (implementation_providers e)) @ [''GtkStatusIcon'']"

text \<open>The loop of \<^verbatim>\<open>_get_icon_name\<close>: a later icon that is not \<^verbatim>\<open>None\<close> replaces the name.\<close>

fun query_icons :: "string \<Rightarrow> string option list \<Rightarrow> string" where
  "query_icons name [] = name"
| "query_icons name (icon # icons) =
     query_icons (case icon of None \<Rightarrow> name | Some i \<Rightarrow> i) icons"

definition get_icon_name :: "env \<Rightarrow> string" where
  "get_icon_name e =
     (let name = query_icons ''blueman-tray'' (icon_providers e);
          name = py_replace ''-symbolic'' [] name
      in if symbolic_status_icons e then name @ ''-symbolic'' else name)"

definition icon_should_change :: "env \<Rightarrow> state \<Rightarrow> state" where
  "icon_should_change e s =
     query_visibility e False True
       (emit_dbus_signal ''IconNameChanged'' (PyStr (get_icon_name e)) s)"

definition on_symbolic_config_change :: "env \<Rightarrow> state \<Rightarrow> state" where
  "on_symbolic_config_change e s = icon_should_change e s"

definition on_adapter_added :: "env \<Rightarrow> string \<Rightarrow> state \<Rightarrow> state" where
  "on_adapter_added e path s = query_visibility e False True s"

definition on_adapter_removed :: "env \<Rightarrow> string \<Rightarrow> state \<Rightarrow> state" where
  "on_adapter_removed e path s = query_visibility e False True s"

definition on_manager_state_changed :: "env \<Rightarrow> bool \<Rightarrow> state \<Rightarrow> state" where
  "on_manager_state_changed e st s =
     (let s1 = query_visibility e False True s
      in if st then launch ''blueman-tray'' s1 else s1)"

definition on_plugins_changed :: "env \<Rightarrow> state \<Rightarrow> state" where
  "on_plugins_changed e s =
     (let impls = get_status_icon_implementations e;
          s1 = (if implementations s = None \<or> implementations s = Some []
                   \<or> implementations s \<noteq> Some impls
                then s\<lparr>implementations := Some impls\<rparr> else s)
      in if manager_state e then launch ''blueman-tray'' s1 else s1)"

text \<open>
  \<^verbatim>\<open>on_load\<close> starts from the class attributes (\<^verbatim>\<open>visible\<close>, \<^verbatim>\<open>visibility_timeout\<close> and
  \<^verbatim>\<open>_implementations\<close> are \<^verbatim>\<open>None\<close>), sets the two tooltip attributes and queries the
  visibility without emitting.
\<close>

definition on_load :: "env \<Rightarrow> state" where
  "on_load e =
     query_visibility e False False
       \<lparr>visible = PyNone, visibility_timeout = None, implementations = None,
        tooltip_title = PyStr (gettext e ''Bluetooth Enabled''), tooltip_text = PyStr [],
        signals = [], sources = [], last_source_id = 0, launched = [], history = []\<rparr>"

text \<open>The bus methods registered by \<^verbatim>\<open>on_load\<close>.\<close>

definition GetVisibility :: "state \<Rightarrow> pyval" where
  "GetVisibility s = visible s"

definition GetToolTipTitle :: "state \<Rightarrow> pyval" where
  "GetToolTipTitle s = tooltip_title s"

definition GetToolTipText :: "state \<Rightarrow> pyval" where
  "GetToolTipText s = tooltip_text s"

definition GetStatusIconImplementations :: "env \<Rightarrow> string list" where
  "GetStatusIconImplementations e = get_status_icon_implementations e"

definition GetIconName :: "env \<Rightarrow> string" where
  "GetIconName e = get_icon_name e"

subsection \<open>Events\<close>

text \<open>
  What can happen to a loaded plugin: a call of one of its public methods, one of the
  notifications it is connected to, or the main loop firing a pending timeout. When a
  timeout fires, the main loop calls \<^verbatim>\<open>on_visibility_timeout\<close> and drops the source
  unless the callback returns \<^verbatim>\<open>True\<close>; with no pending source nothing fires.
\<close>

datatype event =
    Query_visibility bool bool
  | Set_visible bool bool
  | Set_tooltip_title string
  | Set_tooltip_text "string option"
  | Icon_should_change
  | Symbolic_config_change
  | Adapter_added string
  | Adapter_removed string
  | Manager_state_changed bool
  | Plugins_changed
  | Timeout_fires

definition timeout_fires :: "env \<Rightarrow> state \<Rightarrow> state" where
  "timeout_fires e s =
     (case sources s of
        [] \<Rightarrow> s
      | src # _ \<Rightarrow>
          (case on_visibility_timeout e s of
             Inl err \<Rightarrow> source_remove (fst src) s
           | Inr (again, s1) \<Rightarrow> if again then s1 else source_remove (fst src) s1))"

fun step :: "env \<Rightarrow> event \<Rightarrow> state \<Rightarrow> state" where
  "step e (Query_visibility delay_hiding emit) s = query_visibility e delay_hiding emit s"
| "step e (Set_visible v emit) s = set_visible v emit s"
| "step e (Set_tooltip_title title) s = set_tooltip_title title s"
| "step e (Set_tooltip_text text) s = set_tooltip_text text s"
| "step e Icon_should_change s = icon_should_change e s"
| "step e Symbolic_config_change s = on_symbolic_config_change e s"
| "step e (Adapter_added path) s = on_adapter_added e path s"
| "step e (Adapter_removed path) s = on_adapter_removed e path s"
| "step e (Manager_state_changed st) s = on_manager_state_changed e st s"
| "step e Plugins_changed s = on_plugins_changed e s"
| "step e Timeout_fires s = timeout_fires e s"

text \<open>A run: each event comes with the surroundings it happens in.\<close>

fun run :: "(env \<times> event) list \<Rightarrow> state \<Rightarrow> state" where
  "run [] s = s"
| "run ((e, ev) # evs) s = run evs (step e ev s)"

subsection \<open>Notions of the specification and sample inputs\<close>

text \<open>
  The icon is wanted when an adapter is present or a loaded visibility handler forces
  the icon.
\<close>

definition icon_wanted :: "env \<Rightarrow> bool" where
  "icon_wanted e \<longleftrightarrow>
     get_adapters e \<noteq> [] \<or>
     (\<exists>p \<in> set (loaded_plugins e). on_query_force_status_icon_visibility p = Some True)"

text \<open>
  The icon names the loaded icon providers return, those that are not \<^verbatim>\<open>None\<close>, in load
  order.
\<close>

definition provided_icons :: "env \<Rightarrow> string list" where
  "provided_icons e =
     List.map_filter (\<lambda>p. case on_status_icon_query_icon p of
                            Some (Some icon) \<Rightarrow> Some icon | _ \<Rightarrow> None) (loaded_plugins e)"

text \<open>
  The arguments the setters were called with, read off the history in the order of the
  calls.
\<close>

definition visible_calls :: "call list \<Rightarrow> bool list" where
  "visible_calls h = List.map_filter (\<lambda>c. case c of Called_set_visible v \<Rightarrow> Some v | _ \<Rightarrow> None) h"

definition title_calls :: "call list \<Rightarrow> string list" where
  "title_calls h = List.map_filter (\<lambda>c. case c of Called_set_tooltip_title t \<Rightarrow> Some t | _ \<Rightarrow> None) h"

definition text_calls :: "call list \<Rightarrow> string option list" where
  "text_calls h = List.map_filter (\<lambda>c. case c of Called_set_tooltip_text t \<Rightarrow> Some t | _ \<Rightarrow> None) h"

text \<open>
  The titles and the texts that the events of a run hand to \<^verbatim>\<open>set_tooltip_title\<close> and
  \<^verbatim>\<open>set_tooltip_text\<close>.
\<close>

fun titles_set :: "(env \<times> event) list \<Rightarrow> string list" where
  "titles_set [] = []"
| "titles_set ((e, Set_tooltip_title title) # evs) = title # titles_set evs"
| "titles_set (x # evs) = titles_set evs"

fun texts_set :: "(env \<times> event) list \<Rightarrow> string option list" where
  "texts_set [] = []"
| "texts_set ((e, Set_tooltip_text text) # evs) = text # texts_set evs"
| "texts_set (x # evs) = texts_set evs"

text \<open>
  The text kept for an optional text: the empty string stands for \<^verbatim>\<open>None\<close>.
\<close>

definition stored_text :: "string option \<Rightarrow> string" where
  "stored_text text = (case text of None \<Rightarrow> [] | Some t \<Rightarrow> t)"

text \<open>
  The attributes hold what the setters were last called with: \<^verbatim>\<open>visible\<close> is \<^verbatim>\<open>None\<close>
  before the first call of \<^verbatim>\<open>set_visible\<close>, the title is the initial one before the first
  call of \<^verbatim>\<open>set_tooltip_title\<close>, the text is empty before the first call of
  \<^verbatim>\<open>set_tooltip_text\<close>.
\<close>

definition reports_last_set :: "string \<Rightarrow> state \<Rightarrow> bool" where
  "reports_last_set initial_title s \<longleftrightarrow>
     visible s = (if visible_calls (history s) = [] then PyNone
                  else PyBool (last (visible_calls (history s)))) \<and>
     tooltip_title s = PyStr (if title_calls (history s) = [] then initial_title
                  else last (title_calls (history s))) \<and>
     tooltip_text s = PyStr (if text_calls (history s) = [] then []
                  else stored_text (last (text_calls (history s))))"

text \<open>
  The timer is in order: the main loop holds no timeout but the one the plugin has
  recorded in \<^verbatim>\<open>visibility_timeout\<close>, of 2500 ms, and its identifier is not 0.
\<close>

definition timer_ok :: "state \<Rightarrow> bool" where
  "timer_ok s \<longleftrightarrow>
     visibility_timeout s \<noteq> Some 0 \<and>
     sources s = (case visibility_timeout s of None \<Rightarrow> [] | Some i \<Rightarrow> [(i, 2500)])"

text \<open>
  The events that report a change of the Bluetooth state.
\<close>

fun is_bluetooth_event :: "event \<Rightarrow> bool" where
  "is_bluetooth_event (Adapter_added path) = True"
| "is_bluetooth_event (Adapter_removed path) = True"
| "is_bluetooth_event (Manager_state_changed st) = True"
| "is_bluetooth_event ev = False"

text \<open>
  Sample surroundings: \<open>env0\<close> has no adapter and no plugin; \<open>env1\<close> has three plugins,
  two of them declaring an implementation, one forcing the icon and providing a name.
\<close>

definition env0 :: env where
  "env0 = \<lparr>get_adapters = [], loaded_plugins = [], symbolic_status_icons = False,
           manager_state = False, gettext = (\<lambda>m. m)\<rparr>"

definition plugin0 :: plugin where
  "plugin0 = \<lparr>on_query_status_icon_implementation = None,
      on_query_force_status_icon_visibility = None, on_status_icon_query_icon = None\<rparr>"

definition env1 :: env where
  "env1 = env0\<lparr>loaded_plugins :=
     [plugin0\<lparr>on_query_status_icon_implementation := Some (''AppIndicator'', 5)\<rparr>,
      plugin0\<lparr>on_query_force_status_icon_visibility := Some True,
              on_status_icon_query_icon := Some (Some ''blueman-active-symbolic'')\<rparr>,
      plugin0\<lparr>on_query_status_icon_implementation := Some (''StatusNotifierItem'', 10),
              on_status_icon_query_icon := Some None\<rparr>],
     symbolic_status_icons := True\<rparr>"

definition state0 :: state where
  "state0 = on_load env0"

text \<open>
  \<open>env_de\<close> is \<open>env0\<close> with a German catalogue. \<open>state1\<close> is \<open>state0\<close> after a query
  that delays hiding. \<open>events1\<close> and \<open>events2\<close> are two short runs.
\<close>

definition env_de :: env where
  "env_de = env0\<lparr>gettext := (\<lambda>m. if m = ''Bluetooth Enabled'' then ''Bluetooth aktiviert'' else m)\<rparr>"

definition state1 :: state where
  "state1 = query_visibility env0 True True state0"

definition events1 :: "(env \<times> event) list" where
  "events1 = [(env0, Set_tooltip_title ''Connected''), (env1, Adapter_added ''hci0''),
              (env0, Set_tooltip_text None)]"

definition events2 :: "(env \<times> event) list" where
  "events2 = [(env1, Adapter_added ''hci0''), (env0, Adapter_removed ''hci0'')]"

section \<open>Properties\<close>

subsection \<open>Auxiliary facts\<close>

lemma set_map_filter_iff:
  "y \<in> set (List.map_filter f xs) \<longleftrightarrow> (\<exists>x \<in> set xs. f x = Some y)"
  by (induction xs) (auto split: option.splits)

lemma py_any_iff: "py_any bs \<longleftrightarrow> True \<in> set bs"
  by (induction bs) auto

lemma query_visibility_cond:
  "get_adapters e \<noteq> [] \<or> py_any (visibility_handlers e) \<longleftrightarrow> icon_wanted e"
  by (simp add: icon_wanted_def py_any_iff visibility_handlers_def set_map_filter_iff)

lemma visible_set_visible: "visible (set_visible v emit s) = PyBool v"
  by (simp add: set_visible_def emit_dbus_signal_def Let_def)

lemma icon_wanted_env0: "\<not> icon_wanted env0"
  by (simp add: icon_wanted_def env0_def)

lemma icon_wanted_env1: "icon_wanted env1"
  by (simp add: icon_wanted_def env1_def env0_def plugin0_def)

lemma state0_eq:
  "state0 = \<lparr>visible = PyBool False, visibility_timeout = None, implementations = None,
    tooltip_title = PyStr ''Bluetooth Enabled'', tooltip_text = PyStr [],
    signals = [], sources = [], last_source_id = 0, launched = [],
    history = [Called_set_visible False]\<rparr>"
  by (simp add: state0_def on_load_def query_visibility_def env0_def visibility_handlers_def
      set_visible_def)

lemma mset_py_sorted_reverse: "mset (py_sorted_reverse key xs) = mset xs"
  by (simp add: py_sorted_reverse_def)

lemma py_sorted_reverse_descending:
  "sorted_wrt (\<lambda>x y. key y \<le> key x) (py_sorted_reverse key xs)"
proof -
  have "sorted (map key (sort_key key (rev xs)))"
    by (rule sorted_sort_key)
  then have "sorted_wrt (\<lambda>x y. key x \<le> key y) (sort_key key (rev xs))"
    by (simp add: sorted_wrt_map)
  then show ?thesis
    by (simp add: py_sorted_reverse_def sorted_wrt_rev)
qed

lemma py_sorted_reverse_stable:
  "filter (\<lambda>x. key x = k) (py_sorted_reverse key xs) = filter (\<lambda>x. key x = k) xs"
proof -
  have "filter (\<lambda>x. key x = k) (py_sorted_reverse key xs)
      = rev (filter (\<lambda>x. key x = k) (sort_key key (rev xs)))"
    by (simp add: py_sorted_reverse_def rev_filter)
  also have "\<dots> = rev (filter (\<lambda>x. key x = k) (rev xs))"
    by (simp only: sort_key_stable)
  also have "\<dots> = filter (\<lambda>x. key x = k) xs"
    by (simp add: rev_filter)
  finally show ?thesis .
qed

subsection \<open>The visibility decision\<close>

text \<open>
  Claim C1. Whatever the state, \<^verbatim>\<open>query_visibility\<close> sets \<^verbatim>\<open>visible\<close> to \<^verbatim>\<open>True\<close> when an
  adapter is present or a loaded visibility handler forces the icon; otherwise, when no
  hide timeout is pending and \<^verbatim>\<open>delay_hiding\<close> is false, it sets \<^verbatim>\<open>visible\<close> to \<^verbatim>\<open>False\<close>.
\<close>

theorem query_visibility_decision:
  "(icon_wanted e \<longrightarrow> visible (query_visibility e delay_hiding emit s) = PyBool True) \<and>
   (\<not> icon_wanted e \<and> \<not> truthy (visibility_timeout s) \<and> \<not> delay_hiding \<longrightarrow>
      visible (query_visibility e delay_hiding emit s) = PyBool False)"
  unfolding query_visibility_def query_visibility_cond by (simp add: visible_set_visible)

theorem query_visibility_decision_witness:
  "icon_wanted env1 \<and> visible (query_visibility env1 True True state0) = PyBool True \<and>
   \<not> icon_wanted env0 \<and> \<not> truthy (visibility_timeout state0) \<and>
   visible (query_visibility env0 False True state0) = PyBool False"
  using query_visibility_decision [of env1 True True state0]
    query_visibility_decision [of env0 False True state0]
  by (simp add: icon_wanted_env0 icon_wanted_env1 state0_eq)

subsection \<open>Signals\<close>

text \<open>
  Claim C4. \<^verbatim>\<open>set_tooltip_title\<close> stores the title and emits \<^verbatim>\<open>ToolTipTitleChanged\<close> with
  it; \<^verbatim>\<open>set_tooltip_text\<close> emits \<^verbatim>\<open>ToolTipTextChanged\<close> with the text it has stored;
  \<^verbatim>\<open>set_visible\<close> with \<^verbatim>\<open>emit=True\<close> stores the value and emits \<^verbatim>\<open>VisibilityChanged\<close> with
  it. In each case the signal is the one new entry on the bus.
\<close>

theorem setters_emit_signals:
  "signals (set_tooltip_title title s) = signals s @ [(''ToolTipTitleChanged'', PyStr title)] \<and>
   tooltip_title (set_tooltip_title title s) = PyStr title \<and>
   signals (set_tooltip_text text s) =
     signals s @ [(''ToolTipTextChanged'', tooltip_text (set_tooltip_text text s))] \<and>
   tooltip_text (set_tooltip_text text s) = PyStr (case text of None \<Rightarrow> [] | Some t \<Rightarrow> t) \<and>
   signals (set_visible v True s) = signals s @ [(''VisibilityChanged'', PyBool v)] \<and>
   visible (set_visible v True s) = PyBool v"
  by (simp add: set_tooltip_title_def set_tooltip_text_def set_visible_def
      emit_dbus_signal_def Let_def split: option.split)

subsection \<open>The implementations offered\<close>

text \<open>
  Claim C8. Whatever plugins are loaded, also none, the list of implementations is not
  empty and ends with the fallback \<^verbatim>\<open>GtkStatusIcon\<close>; what stands before it are the sorted
  implementations the plugins declare.
\<close>

theorem fallback_implementation_last:
  "get_status_icon_implementations e \<noteq> [] \<and>
   last (get_status_icon_implementations e) = ''GtkStatusIcon'' \<and>
   butlast (get_status_icon_implementations e) =
     map fst (py_sorted_reverse snd (implementation_providers e)) \<and>
   get_status_icon_implementations (e\<lparr>loaded_plugins := []\<rparr>) = [''GtkStatusIcon'']"
  by (simp add: get_status_icon_implementations_def implementation_providers_def
      py_sorted_reverse_def butlast_append)

text \<open>
  Claim C2. The list of implementations consists of the names the loaded implementation
  providers declare, followed by the fallback. The names come from one stable sort of the
  declared (name, priority) pairs: the sorted pairs are a rearrangement of the declared
  ones, their priorities never increase along the list, and pairs of equal priority \<open>k\<close>
  keep their load order. The bus method returns this list.
\<close>

theorem implementations_by_priority:
  "get_status_icon_implementations e =
     map fst (py_sorted_reverse snd (implementation_providers e)) @ [''GtkStatusIcon''] \<and>
   GetStatusIconImplementations e = get_status_icon_implementations e \<and>
   mset (py_sorted_reverse snd (implementation_providers e)) =
     mset (implementation_providers e) \<and>
   sorted_wrt (\<lambda>p q. snd q \<le> snd p) (py_sorted_reverse snd (implementation_providers e)) \<and>
   filter (\<lambda>p. snd p = k) (py_sorted_reverse snd (implementation_providers e)) =
     filter (\<lambda>p. snd p = k) (implementation_providers e)"
  by (simp add: get_status_icon_implementations_def GetStatusIconImplementations_def
      mset_py_sorted_reverse py_sorted_reverse_descending py_sorted_reverse_stable)

lemma implementation_providers_env1:
  "implementation_providers env1 = [(''AppIndicator'', 5), (''StatusNotifierItem'', 10)]"
  by (simp add: implementation_providers_def env1_def env0_def plugin0_def)

theorem implementations_by_priority_witness:
  "get_status_icon_implementations env1 =
     [''StatusNotifierItem'', ''AppIndicator'', ''GtkStatusIcon'']"
  using implementations_by_priority [of env1 10]
  by (simp add: implementation_providers_env1 py_sorted_reverse_def)

subsection \<open>The icon name\<close>

lemma query_icons_last:
  "query_icons name icons =
     (if List.map_filter (\<lambda>x. x) icons = [] then name else last (List.map_filter (\<lambda>x. x) icons))"
  by (induction icons arbitrary: name) (auto split: option.splits)

lemma map_filter_twice:
  "List.map_filter (\<lambda>x. x) (List.map_filter f xs) =
     List.map_filter (\<lambda>p. case f p of Some (Some y) \<Rightarrow> Some y | _ \<Rightarrow> None) xs"
  by (induction xs) (auto split: option.splits)

lemma icon_providers_provided:
  "List.map_filter (\<lambda>x. x) (icon_providers e) = provided_icons e"
  by (simp add: icon_providers_def provided_icons_def map_filter_twice)

lemma py_replace_skip:
  "old \<noteq> [] \<Longrightarrow> take (length old) s = old \<Longrightarrow>
     py_replace old new s = new @ py_replace old new (drop (length old) s)"
  by (cases s) auto

lemma py_replace_keep:
  "old \<noteq> [] \<Longrightarrow> take (length old) (x # s) \<noteq> old \<Longrightarrow>
     py_replace old new (x # s) = x # py_replace old new s"
  by simp

text \<open>An occurrence cannot start inside another when the first character is not repeated.\<close>

lemma occurrence_not_inside:
  assumes c: "c \<notin> set cs"
      and t: "take (Suc (length cs)) (a @ (c # cs) @ b) = c # cs"
  shows "a = [] \<or> Suc (length cs) \<le> length a"
proof (rule ccontr)
  assume "\<not> (a = [] \<or> Suc (length cs) \<le> length a)"
  then have pos: "0 < length a" and lt: "length a < Suc (length cs)" by auto
  have "take (Suc (length cs)) (a @ (c # cs) @ b) ! length a = (a @ (c # cs) @ b) ! length a"
    using lt by (simp only: nth_take)
  also have "\<dots> = c" by (simp add: nth_append)
  finally have "(c # cs) ! length a = c" using t by simp
  with pos have "cs ! (length a - 1) = c" by (cases "length a") auto
  moreover have "length a - 1 < length cs" using pos lt by arith
  ultimately have "c \<in> set cs" by (metis nth_mem)
  with c show False by contradiction
qed

lemma py_replace_occurrence:
  assumes c: "c \<notin> set cs"
  shows "py_replace (c # cs) [] (a @ (c # cs) @ b) =
         py_replace (c # cs) [] a @ py_replace (c # cs) [] b"
proof (induction a rule: length_induct)
  case (1 a)
  let ?p = "c # cs"
  show ?case
  proof (cases a)
    case Nil
    then show ?thesis by simp
  next
    case (Cons x a')
    show ?thesis
    proof (cases "take (length ?p) (a @ ?p @ b) = ?p")
      case True
      with c Cons have len: "length ?p \<le> length a"
        using occurrence_not_inside [of c cs a b] by auto
      with True have ta: "take (length ?p) a = ?p" by simp
      from len have d: "drop (length ?p) (a @ ?p @ b) = drop (length ?p) a @ ?p @ b" by simp
      have shorter: "length (drop (length ?p) a) < length a" using Cons by simp
      have "py_replace ?p [] (a @ ?p @ b) = py_replace ?p [] (drop (length ?p) (a @ ?p @ b))"
        using py_replace_skip [of ?p "a @ ?p @ b" "[]", OF _ True] by simp
      also have "\<dots> = py_replace ?p [] (drop (length ?p) a) @ py_replace ?p [] b"
        unfolding d using 1 shorter by blast
      also have "py_replace ?p [] (drop (length ?p) a) = py_replace ?p [] a"
        using py_replace_skip [of ?p a "[]", OF _ ta] by simp
      finally show ?thesis .
    next
      case False
      have na: "take (length ?p) (x # a') \<noteq> ?p"
      proof
        assume "take (length ?p) (x # a') = ?p"
        then have ta: "take (length ?p) a = ?p" using Cons by simp
        then have "length ?p \<le> length a" by (metis length_take min.cobounded2 min.commute)
        with ta have "take (length ?p) (a @ ?p @ b) = ?p" by simp
        with False show False by contradiction
      qed
      from False Cons have nf: "take (length ?p) (x # (a' @ ?p @ b)) \<noteq> ?p" by simp
      have "py_replace ?p [] (a @ ?p @ b) = py_replace ?p [] (x # (a' @ ?p @ b))"
        using Cons by simp
      also have "\<dots> = x # py_replace ?p [] (a' @ ?p @ b)"
        by (rule py_replace_keep [OF _ nf]) simp
      also have "py_replace ?p [] (a' @ ?p @ b) = py_replace ?p [] a' @ py_replace ?p [] b"
        using 1 Cons by simp
      also have "x # py_replace ?p [] a' @ py_replace ?p [] b
                 = (x # py_replace ?p [] a') @ py_replace ?p [] b" by simp
      also have "x # py_replace ?p [] a' = py_replace ?p [] (x # a')"
        by (rule py_replace_keep [OF _ na, symmetric]) simp
      finally show ?thesis using Cons by simp
    qed
  qed
qed

lemma py_replace_no_occurrence:
  assumes "old \<noteq> []" and "\<And>a b. s \<noteq> a @ old @ b"
  shows "py_replace old new s = s"
  using assms(2)
proof (induction s)
  case Nil
  with assms(1) show ?case by simp
next
  case (Cons x s)
  have "take (length old) (x # s) \<noteq> old"
  proof
    assume "take (length old) (x # s) = old"
    then have "x # s = [] @ old @ drop (length old) (x # s)"
      by (metis append_Nil append_take_drop_id)
    with Cons.prems show False by blast
  qed
  moreover have "py_replace old new s = s"
  proof (rule Cons.IH)
    fix a b show "s \<noteq> a @ old @ b"
      using Cons.prems [of "x # a" b] by auto
  qed
  ultimately show ?case using assms(1) by simp
qed

lemma py_replace_not_sublist:
  assumes "old \<noteq> []" and "\<not> sublist old s"
  shows "py_replace old new s = s"
  using assms by (intro py_replace_no_occurrence) (auto simp: sublist_def)

text \<open>
  Claim C3. The icon name is the icon of the last loaded icon provider that returns one,
  or \<^verbatim>\<open>blueman-tray\<close> when none does, with the occurrences of \<^verbatim>\<open>-symbolic\<close> removed, and
  with \<^verbatim>\<open>-symbolic\<close> appended exactly when the setting \<^verbatim>\<open>symbolic-status-icons\<close> is true.
  Removing the occurrences means: a name without an occurrence stays as it is, and an
  occurrence anywhere in a name is deleted, the parts before and behind it being treated
  in the same way. The bus method returns this name.
\<close>

theorem icon_name_formatted:
  "get_icon_name e =
     py_replace ''-symbolic'' []
       (if provided_icons e = [] then ''blueman-tray'' else last (provided_icons e))
     @ (if symbolic_status_icons e then ''-symbolic'' else []) \<and>
   GetIconName e = get_icon_name e \<and>
   py_replace ''-symbolic'' [] (a @ ''-symbolic'' @ b) =
     py_replace ''-symbolic'' [] a @ py_replace ''-symbolic'' [] b \<and>
   (\<not> sublist ''-symbolic'' s \<longrightarrow> py_replace ''-symbolic'' [] s = s)"
proof -
  have "query_icons ''blueman-tray'' (icon_providers e) =
          (if provided_icons e = [] then ''blueman-tray'' else last (provided_icons e))"
    by (simp only: query_icons_last icon_providers_provided)
  then have "get_icon_name e =
     py_replace ''-symbolic'' []
       (if provided_icons e = [] then ''blueman-tray'' else last (provided_icons e))
     @ (if symbolic_status_icons e then ''-symbolic'' else [])"
    by (simp add: get_icon_name_def Let_def)
  moreover have "py_replace ''-symbolic'' [] (a @ ''-symbolic'' @ b) =
     py_replace ''-symbolic'' [] a @ py_replace ''-symbolic'' [] b"
    by (rule py_replace_occurrence) simp
  moreover have "\<not> sublist ''-symbolic'' s \<longrightarrow> py_replace ''-symbolic'' [] s = s"
    by (simp add: py_replace_not_sublist)
  ultimately show ?thesis
    by (simp only: GetIconName_def simp_thms)
qed

lemma provided_icons_env1: "provided_icons env1 = [''blueman-active-symbolic'']"
  by (simp add: provided_icons_def env1_def env0_def plugin0_def)

lemma provided_icons_env0: "provided_icons env0 = []"
  by (simp add: provided_icons_def env0_def)

theorem icon_name_formatted_witness:
  "get_icon_name env1 = ''blueman-active-symbolic'' \<and>
   get_icon_name env0 = ''blueman-tray'' \<and>
   \<not> sublist ''-symbolic'' ''blueman-tray'' \<and>
   py_replace ''-symbolic'' [] ''blueman-tray'' = ''blueman-tray''"
proof -
  have n: "\<not> sublist ''-symbolic'' ''blueman-tray''" by code_simp
  have a: "''blueman-active-symbolic'' = ''blueman-active'' @ ''-symbolic'' @ []" by simp
  have k: "\<not> sublist ''-symbolic'' ''blueman-active''" by code_simp
  have s1: "symbolic_status_icons env1" by (simp add: env1_def env0_def)
  have s0: "\<not> symbolic_status_icons env0" by (simp add: env0_def)
  from icon_name_formatted [of env0 "[]" "[]" "''blueman-tray''"] n s0
  have e0: "get_icon_name env0 = ''blueman-tray''"
    and r0: "py_replace ''-symbolic'' [] ''blueman-tray'' = ''blueman-tray''"
    by (simp_all only: provided_icons_env0 if_True if_False append_Nil2 simp_thms)
  from icon_name_formatted [of env1 "''blueman-active''" "[]" "''blueman-active''"] k s1
  have "get_icon_name env1 = py_replace ''-symbolic'' [] ''blueman-active-symbolic'' @ ''-symbolic''"
    and "py_replace ''-symbolic'' [] (''blueman-active'' @ ''-symbolic'' @ []) =
           py_replace ''-symbolic'' [] ''blueman-active'' @ py_replace ''-symbolic'' [] []"
    and "py_replace ''-symbolic'' [] ''blueman-active'' = ''blueman-active''"
    by (simp_all add: provided_icons_env1)
  then have "get_icon_name env1 = ''blueman-active-symbolic''"
    by simp
  with e0 r0 n show ?thesis by simp
qed

text \<open>
  The removal is one pass over the name: an occurrence that only arises from joining
  the remaining parts stays.
\<close>

lemma py_replace_single_pass:
  "py_replace ''-symbolic'' [] ''-sym-symbolicbolic'' = ''-symbolic''"
  by simp

subsection \<open>A change of the configuration\<close>

lemma signals_query_visibility:
  "signals (query_visibility e delay_hiding emit s) =
     signals s @
     (if icon_wanted e then (if emit then [(''VisibilityChanged'', PyBool True)] else [])
      else if \<not> truthy (visibility_timeout s) \<and> \<not> delay_hiding \<and> emit
        then [(''VisibilityChanged'', PyBool False)]
      else [])"
  unfolding query_visibility_def query_visibility_cond
  by (simp add: set_visible_def emit_dbus_signal_def timeout_add_def Let_def)

text \<open>
  Claim C7. When the key \<^verbatim>\<open>symbolic-status-icons\<close> changes, the handler emits
  \<^verbatim>\<open>IconNameChanged\<close> with the icon name computed under the configuration in force, and
  then queries the visibility: the icon-name signal is the first new entry on the bus, and
  what follows is what the visibility query emits.
\<close>

theorem symbolic_config_change_emits_icon_name:
  "on_symbolic_config_change e s =
     query_visibility e False True
       (emit_dbus_signal ''IconNameChanged'' (PyStr (get_icon_name e)) s) \<and>
   signals (on_symbolic_config_change e s) =
     signals s @ (''IconNameChanged'', PyStr (GetIconName e)) #
       (if icon_wanted e then [(''VisibilityChanged'', PyBool True)]
        else if truthy (visibility_timeout s) then []
        else [(''VisibilityChanged'', PyBool False)])"
  by (simp add: on_symbolic_config_change_def icon_should_change_def signals_query_visibility
      GetIconName_def) (simp add: emit_dbus_signal_def)


lemma get_icon_name_env1: "get_icon_name env1 = ''blueman-active-symbolic''"
  by (simp add: get_icon_name_def icon_providers_def env1_def env0_def plugin0_def)

lemma get_icon_name_env0: "get_icon_name env0 = ''blueman-tray''"
  by (simp add: get_icon_name_def icon_providers_def env0_def)

theorem symbolic_config_change_emits_icon_name_witness:
  "signals (on_symbolic_config_change env1 state0) =
     [(''IconNameChanged'', PyStr ''blueman-active-symbolic''),
      (''VisibilityChanged'', PyBool True)] \<and>
   signals (on_symbolic_config_change env0 state0) =
     [(''IconNameChanged'', PyStr ''blueman-tray''), (''VisibilityChanged'', PyBool False)]"
  using symbolic_config_change_emits_icon_name [of env1 state0, THEN conjunct2]
    symbolic_config_change_emits_icon_name [of env0 state0, THEN conjunct2]
  by (simp add: icon_wanted_env0 icon_wanted_env1 state0_eq GetIconName_def
      get_icon_name_env0 get_icon_name_env1)

subsection \<open>Runs of events\<close>

text \<open>
  What every event preserves holds after every run.
\<close>

lemma run_invariant:
  assumes step: "\<And>e ev s. P s \<Longrightarrow> P (step e ev s)" and init: "P s"
  shows "P (run evs s)"
  using init
proof (induction evs arbitrary: s)
  case Nil
  then show ?case by simp
next
  case (Cons x evs)
  obtain e ev where x: "x = (e, ev)" by (cases x)
  from Cons.prems have "P (step e ev s)" by (rule step)
  then have "P (run evs (step e ev s))" by (rule Cons.IH)
  then show ?case by (simp add: x)
qed

lemma run_snoc: "run (evs @ [x]) s = step (fst x) (snd x) (run evs s)"
proof (induction evs arbitrary: s)
  case Nil
  show ?case by (cases x) simp
next
  case (Cons y evs)
  then show ?case by (cases y) simp
qed

subsection \<open>The attributes and the setters\<close>

lemma map_filter_snoc:
  "List.map_filter f (xs @ [x]) =
     List.map_filter f xs @ (case f x of None \<Rightarrow> [] | Some y \<Rightarrow> [y])"
  by (induction xs) (auto split: option.splits)

lemma calls_snoc:
  "visible_calls (h @ [c]) =
     visible_calls h @ (case c of Called_set_visible v \<Rightarrow> [v] | _ \<Rightarrow> [])"
  "title_calls (h @ [c]) =
     title_calls h @ (case c of Called_set_tooltip_title t \<Rightarrow> [t] | _ \<Rightarrow> [])"
  "text_calls (h @ [c]) =
     text_calls h @ (case c of Called_set_tooltip_text t \<Rightarrow> [t] | _ \<Rightarrow> [])"
  by (simp_all add: visible_calls_def title_calls_def text_calls_def map_filter_snoc
      split: call.split)

lemma calls_Nil: "visible_calls [] = []" "title_calls [] = []" "text_calls [] = []"
  by (simp_all add: visible_calls_def title_calls_def text_calls_def)

lemma reports_last_set_frame:
  "reports_last_set t (emit_dbus_signal name arg s) = reports_last_set t s"
  "reports_last_set t (launch cmd s) = reports_last_set t s"
  "reports_last_set t (source_remove i s) = reports_last_set t s"
  "reports_last_set t (s\<lparr>visibility_timeout := x\<rparr>) = reports_last_set t s"
  "reports_last_set t (s\<lparr>implementations := y\<rparr>) = reports_last_set t s"
  "reports_last_set t (snd (timeout_add n s)) = reports_last_set t s"
  by (simp_all add: reports_last_set_def emit_dbus_signal_def launch_def source_remove_def
      timeout_add_def Let_def)

lemma reports_last_set_setters:
  assumes "reports_last_set t s"
  shows "reports_last_set t (set_visible v emit s)"
    and "reports_last_set t (set_tooltip_title title s)"
    and "reports_last_set t (set_tooltip_text text s)"
  using assms
  by (simp_all add: reports_last_set_def set_visible_def set_tooltip_title_def
      set_tooltip_text_def emit_dbus_signal_def calls_snoc stored_text_def Let_def
      split: option.split)

lemma reports_last_set_query_visibility:
  "reports_last_set t s \<Longrightarrow> reports_last_set t (query_visibility e delay_hiding emit s)"
  by (simp add: query_visibility_def reports_last_set_setters reports_last_set_frame
      split_beta)

lemma reports_last_set_timeout_fires:
  "reports_last_set t s \<Longrightarrow> reports_last_set t (timeout_fires e s)"
  by (simp add: timeout_fires_def on_visibility_timeout_def reports_last_set_frame
      reports_last_set_query_visibility split: list.split option.split)

lemma step_reports_last_set:
  "reports_last_set t s \<Longrightarrow> reports_last_set t (step e ev s)"
  by (cases ev)
    (simp_all add: reports_last_set_setters reports_last_set_frame
      reports_last_set_query_visibility reports_last_set_timeout_fires
      icon_should_change_def on_symbolic_config_change_def on_adapter_added_def
      on_adapter_removed_def on_manager_state_changed_def on_plugins_changed_def Let_def)

lemma run_reports_last_set:
  "reports_last_set t s \<Longrightarrow> reports_last_set t (run evs s)"
  by (induction evs arbitrary: s) (auto simp: step_reports_last_set)

lemma on_load_reports_last_set:
  "reports_last_set (gettext e ''Bluetooth Enabled'') (on_load e)"
proof -
  have "reports_last_set (gettext e ''Bluetooth Enabled'')
     \<lparr>visible = PyNone, visibility_timeout = None, implementations = None,
      tooltip_title = PyStr (gettext e ''Bluetooth Enabled''), tooltip_text = PyStr [],
      signals = [], sources = [], last_source_id = 0, launched = [], history = []\<rparr>"
    by (simp add: reports_last_set_def visible_calls_def title_calls_def text_calls_def)
  then show ?thesis
    unfolding on_load_def by (rule reports_last_set_query_visibility)
qed

lemma visible_frame:
  "visible (emit_dbus_signal name arg s) = visible s"
  "visible (launch cmd s) = visible s"
  "visible (source_remove i s) = visible s"
  "visible (snd (timeout_add n s)) = visible s"
  by (simp_all add: emit_dbus_signal_def launch_def source_remove_def timeout_add_def Let_def)

lemma visible_query_visibility:
  "visible (query_visibility e delay_hiding emit s) =
     (if icon_wanted e then PyBool True
      else if \<not> truthy (visibility_timeout s) \<and> \<not> delay_hiding then PyBool False
      else visible s)"
  unfolding query_visibility_def query_visibility_cond
  by (simp add: visible_set_visible visible_frame split_beta)

lemma visible_timeout_fires:
  "visible s \<noteq> PyNone \<Longrightarrow> visible (timeout_fires e s) \<noteq> PyNone"
  by (simp add: timeout_fires_def on_visibility_timeout_def visible_frame
      visible_query_visibility split: list.split option.split)

lemma step_visible_set: "visible s \<noteq> PyNone \<Longrightarrow> visible (step e ev s) \<noteq> PyNone"
  by (cases ev)
    (simp_all add: visible_set_visible visible_frame visible_query_visibility
      visible_timeout_fires set_tooltip_title_def set_tooltip_text_def
      icon_should_change_def on_symbolic_config_change_def on_adapter_added_def
      on_adapter_removed_def on_manager_state_changed_def on_plugins_changed_def Let_def)

lemma run_visible_set: "visible s \<noteq> PyNone \<Longrightarrow> visible (run evs s) \<noteq> PyNone"
  by (rule run_invariant [where P = "\<lambda>s. visible s \<noteq> PyNone"]) (rule step_visible_set)

lemma on_load_visible_set: "visible (on_load e) \<noteq> PyNone"
  by (simp add: on_load_def visible_query_visibility)

lemma history_frame:
  "history (emit_dbus_signal name arg s) = history s"
  "history (launch cmd s) = history s"
  "history (source_remove i s) = history s"
  "history (snd (timeout_add n s)) = history s"
  by (simp_all add: emit_dbus_signal_def launch_def source_remove_def timeout_add_def Let_def)

lemma tooltip_calls_set_visible:
  "title_calls (history (set_visible v emit s)) = title_calls (history s)"
  "text_calls (history (set_visible v emit s)) = text_calls (history s)"
  by (simp_all add: set_visible_def emit_dbus_signal_def calls_snoc Let_def)

lemma tooltip_calls_query_visibility:
  "title_calls (history (query_visibility e delay_hiding emit s)) = title_calls (history s)"
  "text_calls (history (query_visibility e delay_hiding emit s)) = text_calls (history s)"
  by (simp_all add: query_visibility_def tooltip_calls_set_visible history_frame split_beta)

lemma tooltip_calls_timeout_fires:
  "title_calls (history (timeout_fires e s)) = title_calls (history s)"
  "text_calls (history (timeout_fires e s)) = text_calls (history s)"
  by (simp_all add: timeout_fires_def on_visibility_timeout_def history_frame
      tooltip_calls_query_visibility split: list.split option.split)

lemma tooltip_calls_setters:
  "title_calls (history (set_tooltip_title title s)) = title_calls (history s) @ [title]"
  "text_calls (history (set_tooltip_title title s)) = text_calls (history s)"
  "title_calls (history (set_tooltip_text text s)) = title_calls (history s)"
  "text_calls (history (set_tooltip_text text s)) = text_calls (history s) @ [text]"
  by (simp_all add: set_tooltip_title_def set_tooltip_text_def emit_dbus_signal_def
      calls_snoc Let_def)

lemma step_tooltip_calls:
  "title_calls (history (step e ev s)) = title_calls (history s) @ titles_set [(e, ev)]"
  "text_calls (history (step e ev s)) = text_calls (history s) @ texts_set [(e, ev)]"
  by (cases ev;
      simp add: tooltip_calls_setters tooltip_calls_set_visible history_frame
        tooltip_calls_query_visibility tooltip_calls_timeout_fires
        icon_should_change_def on_symbolic_config_change_def on_adapter_added_def
        on_adapter_removed_def on_manager_state_changed_def on_plugins_changed_def Let_def)+

lemma run_tooltip_calls:
  "title_calls (history (run evs s)) = title_calls (history s) @ titles_set evs \<and>
   text_calls (history (run evs s)) = text_calls (history s) @ texts_set evs"
proof (induction evs arbitrary: s)
  case Nil
  then show ?case by simp
next
  case (Cons x evs)
  obtain e ev where x: "x = (e, ev)" by (cases x)
  have "titles_set ((e, ev) # evs) = titles_set [(e, ev)] @ titles_set evs"
    by (cases ev) simp_all
  moreover have "texts_set ((e, ev) # evs) = texts_set [(e, ev)] @ texts_set evs"
    by (cases ev) simp_all
  ultimately show ?case
    using Cons.IH [of "step e ev s"] by (simp add: x step_tooltip_calls)
qed

lemma on_load_tooltip_calls:
  "title_calls (history (on_load e)) = [] \<and> text_calls (history (on_load e)) = []"
  by (simp add: on_load_def tooltip_calls_query_visibility calls_Nil)

lemma reached_reports:
  "visible (run evs (on_load e)) =
     PyBool (last (visible_calls (history (run evs (on_load e))))) \<and>
   visible_calls (history (run evs (on_load e))) \<noteq> [] \<and>
   tooltip_title (run evs (on_load e)) =
     PyStr (last (gettext e ''Bluetooth Enabled'' # titles_set evs)) \<and>
   tooltip_text (run evs (on_load e)) = PyStr (last ([] # map stored_text (texts_set evs)))"
proof -
  let ?s = "run evs (on_load e)"
  have r: "reports_last_set (gettext e ''Bluetooth Enabled'') ?s"
    by (rule run_reports_last_set) (rule on_load_reports_last_set)
  have v: "visible ?s \<noteq> PyNone"
    by (rule run_visible_set) (rule on_load_visible_set)
  have c: "title_calls (history ?s) = titles_set evs" "text_calls (history ?s) = texts_set evs"
    using run_tooltip_calls [of evs "on_load e"] on_load_tooltip_calls [of e] by simp_all
  from r v have ne: "visible_calls (history ?s) \<noteq> []"
    by (auto simp: reports_last_set_def)
  with r have "visible ?s = PyBool (last (visible_calls (history ?s)))"
    by (simp add: reports_last_set_def)
  moreover from r c have "tooltip_title ?s = PyStr (last (gettext e ''Bluetooth Enabled'' # titles_set evs))"
    by (simp add: reports_last_set_def)
  moreover from r c have "tooltip_text ?s = PyStr (last ([] # map stored_text (texts_set evs)))"
    by (simp add: reports_last_set_def last_map)
  ultimately show ?thesis using ne by simp
qed

text \<open>
  Claim C5, as stated, fails for the initial title: \<^verbatim>\<open>on_load\<close> stores the translation of
  \<^verbatim>\<open>Bluetooth Enabled\<close>, which under a German catalogue is another string.
\<close>

theorem initial_title_is_translated:
  "GetToolTipTitle (on_load env_de) = PyStr ''Bluetooth aktiviert'' \<and>
   GetToolTipTitle (on_load env_de) \<noteq> PyStr ''Bluetooth Enabled''"
  by (simp add: GetToolTipTitle_def on_load_def query_visibility_def set_visible_def
      visibility_handlers_def env_de_def env0_def)

text \<open>
  Claim C5, amended. After \<^verbatim>\<open>on_load\<close> and any run of events, \<^verbatim>\<open>GetVisibility\<close> returns the
  value of the last call of \<^verbatim>\<open>set_visible\<close> (there is one, made by \<^verbatim>\<open>on_load\<close> at the
  latest), \<^verbatim>\<open>GetToolTipTitle\<close> returns the title last set, initially the translation of
  \<^verbatim>\<open>Bluetooth Enabled\<close>, and \<^verbatim>\<open>GetToolTipText\<close> returns the text last stored, initially the
  empty string.
\<close>

theorem bus_methods_report_stored_state:
  "GetVisibility (run evs (on_load e)) =
     PyBool (last (visible_calls (history (run evs (on_load e))))) \<and>
   visible_calls (history (run evs (on_load e))) \<noteq> [] \<and>
   GetToolTipTitle (run evs (on_load e)) =
     PyStr (last (gettext e ''Bluetooth Enabled'' # titles_set evs)) \<and>
   GetToolTipText (run evs (on_load e)) =
     PyStr (last ([] # map stored_text (texts_set evs)))"
  unfolding GetVisibility_def GetToolTipTitle_def GetToolTipText_def
  by (rule reached_reports)

theorem bus_methods_report_stored_state_witness:
  "GetToolTipTitle (run events1 (on_load env0)) = PyStr ''Connected'' \<and>
   GetToolTipText (run events1 (on_load env0)) = PyStr [] \<and>
   GetToolTipTitle (run [] (on_load env0)) = PyStr ''Bluetooth Enabled''"
  using bus_methods_report_stored_state [of events1 env0]
    bus_methods_report_stored_state [of "[]" env0]
  by (simp add: events1_def env0_def stored_text_def)

text \<open>
  Claim C9. \<^verbatim>\<open>set_tooltip_text(None)\<close> stores the empty string and emits
  \<^verbatim>\<open>ToolTipTextChanged\<close> with the empty string; after \<^verbatim>\<open>on_load\<close> and any run of events
  \<^verbatim>\<open>GetToolTipText\<close> returns a string, never \<^verbatim>\<open>None\<close>.
\<close>

theorem tooltip_text_never_none:
  "tooltip_text (set_tooltip_text None s) = PyStr [] \<and>
   signals (set_tooltip_text None s) = signals s @ [(''ToolTipTextChanged'', PyStr [])] \<and>
   GetToolTipText (set_tooltip_text None s) = PyStr [] \<and>
   GetToolTipText (run evs (on_load e)) \<noteq> PyNone \<and>
   (\<exists>t. GetToolTipText (run evs (on_load e)) = PyStr t)"
proof -
  have "tooltip_text (run evs (on_load e)) = PyStr (last ([] # map stored_text (texts_set evs)))"
    using reached_reports [of evs e] by (simp only:)
  then have "GetToolTipText (run evs (on_load e)) \<noteq> PyNone \<and>
    (\<exists>t. GetToolTipText (run evs (on_load e)) = PyStr t)"
    by (simp add: GetToolTipText_def)
  moreover have "tooltip_text (set_tooltip_text None s) = PyStr [] \<and>
   signals (set_tooltip_text None s) = signals s @ [(''ToolTipTextChanged'', PyStr [])] \<and>
   GetToolTipText (set_tooltip_text None s) = PyStr []"
    by (simp add: set_tooltip_text_def emit_dbus_signal_def GetToolTipText_def Let_def)
  ultimately show ?thesis by (simp only: simp_thms)
qed

subsection \<open>The icon and the Bluetooth state\<close>

lemma sources_query_visibility_now:
  "sources (query_visibility e False emit s) = sources s \<and>
   visibility_timeout (query_visibility e False emit s) = visibility_timeout s"
  by (simp add: query_visibility_def set_visible_def emit_dbus_signal_def Let_def)

lemma visibility_timeout_query_visibility_now:
  "visibility_timeout (query_visibility e False emit s) = visibility_timeout s"
  by (simp add: sources_query_visibility_now)

lemma bluetooth_event_step:
  assumes "is_bluetooth_event ev"
  shows "visibility_timeout (step e ev s) = visibility_timeout s \<and>
         visible (step e ev s) =
           (if icon_wanted e then PyBool True
            else if \<not> truthy (visibility_timeout s) then PyBool False else visible s)"
  using assms
  by (cases ev)
    (simp_all add: on_adapter_added_def on_adapter_removed_def on_manager_state_changed_def
      visibility_timeout_query_visibility_now visible_query_visibility launch_def Let_def)

lemma run_events2:
  "visible (run events2 state0) = PyBool False \<and>
   visibility_timeout (run events2 state0) = None"
  by (simp add: events2_def on_adapter_added_def on_adapter_removed_def
      visible_query_visibility visibility_timeout_query_visibility_now
      icon_wanted_env0 icon_wanted_env1 state0_eq)

text \<open>
  Claim C6. The handlers of adapter-added, adapter-removed and manager-state-changed run
  \<^verbatim>\<open>query_visibility\<close>. Hence in a state reached from any state \<open>s0\<close> through a run of
  such events, if no hide timeout is pending, \<^verbatim>\<open>visible\<close> is \<^verbatim>\<open>True\<close> exactly when, in the
  surroundings of the last event, an adapter is present or a loaded handler forces the
  icon.
\<close>

theorem icon_reflects_bluetooth_state:
  "on_adapter_added e path s = query_visibility e False True s \<and>
   on_adapter_removed e path s = query_visibility e False True s \<and>
   on_manager_state_changed e st s =
     (if st then launch ''blueman-tray'' (query_visibility e False True s)
      else query_visibility e False True s) \<and>
   (evs \<noteq> [] \<and> list_all (\<lambda>x. is_bluetooth_event (snd x)) evs \<and>
    \<not> truthy (visibility_timeout (run evs s0)) \<longrightarrow>
      (visible (run evs s0) = PyBool True \<longleftrightarrow> icon_wanted (fst (last evs))) \<and>
      visible (run evs s0) = PyBool (icon_wanted (fst (last evs))))"
proof -
  have "visible (run evs s0) = PyBool (icon_wanted (fst (last evs)))"
    if ne: "evs \<noteq> []" and bt: "list_all (\<lambda>x. is_bluetooth_event (snd x)) evs"
      and idle: "\<not> truthy (visibility_timeout (run evs s0))"
  proof -
    from ne have evs: "evs = butlast evs @ [last evs]" by simp
    let ?s1 = "run (butlast evs) s0"
    have r: "run evs s0 = step (fst (last evs)) (snd (last evs)) ?s1"
      using run_snoc [of "butlast evs" "last evs" s0] evs by simp
    from bt ne have ev: "is_bluetooth_event (snd (last evs))"
      by (simp add: list_all_iff)
    note b = bluetooth_event_step [OF ev, of "fst (last evs)" ?s1]
    from idle r b have "\<not> truthy (visibility_timeout ?s1)" by simp
    with b r show ?thesis by simp
  qed
  then show ?thesis
    by (simp add: on_adapter_added_def on_adapter_removed_def on_manager_state_changed_def
        Let_def)
qed

theorem icon_reflects_bluetooth_state_witness:
  "events2 \<noteq> [] \<and> list_all (\<lambda>x. is_bluetooth_event (snd x)) events2 \<and>
   \<not> truthy (visibility_timeout (run events2 state0)) \<and>
   \<not> icon_wanted (fst (last events2)) \<and>
   visible (run events2 state0) = PyBool False"
  using icon_reflects_bluetooth_state [of env0 "''hci0''" state0 True events2 state0]
  by (simp add: run_events2 icon_wanted_env0) (simp add: events2_def icon_wanted_env0)

subsection \<open>Delayed hiding\<close>

lemma timer_ok_frame:
  "timer_ok (emit_dbus_signal name arg s) = timer_ok s"
  "timer_ok (launch cmd s) = timer_ok s"
  "timer_ok (s\<lparr>implementations := y\<rparr>) = timer_ok s"
  "timer_ok (set_visible v emit s) = timer_ok s"
  "timer_ok (set_tooltip_title title s) = timer_ok s"
  "timer_ok (set_tooltip_text text s) = timer_ok s"
  by (simp_all add: timer_ok_def emit_dbus_signal_def launch_def set_visible_def
      set_tooltip_title_def set_tooltip_text_def Let_def)

lemma timer_ok_query_visibility:
  "timer_ok s \<Longrightarrow> timer_ok (query_visibility e delay_hiding emit s)"
proof (cases "visibility_timeout s")
  case None
  assume "timer_ok s"
  with None show ?thesis
    by (simp add: query_visibility_def timer_ok_frame)
      (simp add: timer_ok_def timeout_add_def Let_def)
next
  case (Some i)
  assume "timer_ok s"
  with Some have "truthy (visibility_timeout s)" by (simp add: timer_ok_def)
  with \<open>timer_ok s\<close> show ?thesis
    by (simp add: query_visibility_def timer_ok_frame)
qed

lemma timer_ok_cleared:
  "timer_ok s \<Longrightarrow> visibility_timeout s = Some i \<Longrightarrow>
     timer_ok ((source_remove i s)\<lparr>visibility_timeout := None\<rparr>)"
  by (simp add: timer_ok_def source_remove_def)

lemma timeout_fires_cleared:
  assumes "timer_ok s"
  shows "timeout_fires e s =
     (case visibility_timeout s of None \<Rightarrow> s
      | Some i \<Rightarrow> query_visibility e False True ((source_remove i s)\<lparr>visibility_timeout := None\<rparr>))"
proof (cases "visibility_timeout s")
  case None
  with assms show ?thesis by (simp add: timer_ok_def timeout_fires_def)
next
  case (Some i)
  let ?s1 = "query_visibility e False True ((source_remove i s)\<lparr>visibility_timeout := None\<rparr>)"
  from assms Some have src: "sources s = [(i, 2500)]" by (simp add: timer_ok_def)
  have "sources ?s1 = []"
    using src by (simp add: sources_query_visibility_now) (simp add: source_remove_def)
  then have "source_remove i ?s1 = ?s1" by (simp add: source_remove_def)
  with Some src show ?thesis
    by (simp add: timeout_fires_def on_visibility_timeout_def)
qed

lemma timer_ok_timeout_fires: "timer_ok s \<Longrightarrow> timer_ok (timeout_fires e s)"
  by (simp add: timeout_fires_cleared timer_ok_cleared timer_ok_query_visibility
      split: option.split)

lemma step_timer_ok: "timer_ok s \<Longrightarrow> timer_ok (step e ev s)"
  by (cases ev)
    (simp_all add: timer_ok_frame timer_ok_query_visibility timer_ok_timeout_fires
      icon_should_change_def on_symbolic_config_change_def on_adapter_added_def
      on_adapter_removed_def on_manager_state_changed_def on_plugins_changed_def Let_def)

lemma run_timer_ok: "timer_ok s \<Longrightarrow> timer_ok (run evs s)"
  by (rule run_invariant [where P = timer_ok]) (rule step_timer_ok)

lemma on_load_timer_ok: "timer_ok (on_load e)"
proof -
  have "timer_ok
     \<lparr>visible = PyNone, visibility_timeout = None, implementations = None,
      tooltip_title = PyStr (gettext e ''Bluetooth Enabled''), tooltip_text = PyStr [],
      signals = [], sources = [], last_source_id = 0, launched = [], history = []\<rparr>"
    by (simp add: timer_ok_def)
  then show ?thesis
    unfolding on_load_def by (rule timer_ok_query_visibility)
qed

lemma timeout_fires_idle:
  assumes "timer_ok s"
  shows "sources (timeout_fires e s) = [] \<and> visibility_timeout (timeout_fires e s) = None"
proof (cases "visibility_timeout s")
  case None
  with assms show ?thesis by (simp add: timeout_fires_cleared) (simp add: timer_ok_def)
next
  case (Some i)
  with assms have "sources s = [(i, 2500)]" by (simp add: timer_ok_def)
  with assms Some show ?thesis
    by (simp add: timeout_fires_cleared sources_query_visibility_now)
      (simp add: source_remove_def)
qed

lemma state1_eq:
  "state1 = \<lparr>visible = PyBool False, visibility_timeout = Some 1, implementations = None,
    tooltip_title = PyStr ''Bluetooth Enabled'', tooltip_text = PyStr [],
    signals = [], sources = [(1, 2500)], last_source_id = 1, launched = [],
    history = [Called_set_visible False]\<rparr>"
  unfolding state1_def query_visibility_def query_visibility_cond
  by (simp add: icon_wanted_env0 state0_eq timeout_add_def)

text \<open>
  Claim C10. When the icon is not wanted, no timeout is pending and \<^verbatim>\<open>delay_hiding\<close> is
  true, \<^verbatim>\<open>query_visibility\<close> changes nothing but the timer: it registers one timeout of
  2500 ms and records its identifier. While a timeout is pending, \<^verbatim>\<open>query_visibility\<close>
  neither hides nor registers a timeout: it shows the icon when it is wanted and does
  nothing otherwise. \<^verbatim>\<open>on_visibility_timeout\<close> removes the source, clears
  \<^verbatim>\<open>visibility_timeout\<close>, queries the visibility once and returns \<^verbatim>\<open>False\<close>. After
  \<^verbatim>\<open>on_load\<close> and any run of events the timer is in order, so at most one timeout is
  pending, and when the main loop fires it none is left.
\<close>

theorem hiding_delayed_not_doubled:
  "(\<not> icon_wanted e \<and> \<not> truthy (visibility_timeout s) \<longrightarrow>
      query_visibility e True emit s =
        s\<lparr>visibility_timeout := Some (Suc (last_source_id s)),
          sources := sources s @ [(Suc (last_source_id s), 2500)],
          last_source_id := Suc (last_source_id s)\<rparr>) \<and>
   (truthy (visibility_timeout s) \<longrightarrow>
      query_visibility e delay_hiding emit s =
        (if icon_wanted e then set_visible True emit s else s)) \<and>
   (visibility_timeout s = Some i \<longrightarrow>
      on_visibility_timeout e s =
        Inr (False,
          query_visibility e False True ((source_remove i s)\<lparr>visibility_timeout := None\<rparr>)) \<and>
      visibility_timeout
        (query_visibility e False True ((source_remove i s)\<lparr>visibility_timeout := None\<rparr>)) =
        None) \<and>
   timer_ok (run evs (on_load e0)) \<and>
   length (sources (run evs (on_load e0))) \<le> 1 \<and>
   sources (timeout_fires e (run evs (on_load e0))) = [] \<and>
   visibility_timeout (timeout_fires e (run evs (on_load e0))) = None"
proof -
  have a: "\<not> icon_wanted e \<and> \<not> truthy (visibility_timeout s) \<longrightarrow>
      query_visibility e True emit s =
        s\<lparr>visibility_timeout := Some (Suc (last_source_id s)),
          sources := sources s @ [(Suc (last_source_id s), 2500)],
          last_source_id := Suc (last_source_id s)\<rparr>"
    unfolding query_visibility_def query_visibility_cond
    by (simp add: timeout_add_def)
  have b: "truthy (visibility_timeout s) \<longrightarrow>
      query_visibility e delay_hiding emit s =
        (if icon_wanted e then set_visible True emit s else s)"
    unfolding query_visibility_def query_visibility_cond by simp
  have c: "visibility_timeout s = Some i \<longrightarrow>
      on_visibility_timeout e s =
        Inr (False,
          query_visibility e False True ((source_remove i s)\<lparr>visibility_timeout := None\<rparr>)) \<and>
      visibility_timeout
        (query_visibility e False True ((source_remove i s)\<lparr>visibility_timeout := None\<rparr>)) =
        None"
    by (simp add: on_visibility_timeout_def visibility_timeout_query_visibility_now)
  have t: "timer_ok (run evs (on_load e0))"
    by (rule run_timer_ok) (rule on_load_timer_ok)
  then have l: "length (sources (run evs (on_load e0))) \<le> 1"
    by (simp add: timer_ok_def split: option.split)
  from a b c t l timeout_fires_idle [OF t, of e] show ?thesis
    by (simp only: simp_thms)
qed

theorem hiding_delayed_not_doubled_witness:
  "\<not> icon_wanted env0 \<and> \<not> truthy (visibility_timeout state0) \<and>
   visible (query_visibility env0 True True state0) = visible state0 \<and>
   sources (query_visibility env0 True True state0) = [(1, 2500)] \<and>
   visibility_timeout state1 = Some 1 \<and> truthy (visibility_timeout state1) \<and>
   query_visibility env0 True True state1 = state1 \<and>
   query_visibility env0 False True state1 = state1 \<and>
   on_visibility_timeout env0 state1 =
     Inr (False, state0\<lparr>signals := [(''VisibilityChanged'', PyBool False)],
        last_source_id := 1,
        history := [Called_set_visible False, Called_set_visible False]\<rparr>)"
proof -
  have w: "\<not> icon_wanted env0" by (rule icon_wanted_env0)
  have i: "\<not> truthy (visibility_timeout state0)" by (simp add: state0_eq)
  have p: "visibility_timeout state1 = Some 1" by (simp add: state1_eq)
  have q: "truthy (visibility_timeout state1)" by (simp add: state1_eq)
  have r: "query_visibility env0 False True
             ((source_remove 1 state1)\<lparr>visibility_timeout := None\<rparr>) =
           state0\<lparr>signals := [(''VisibilityChanged'', PyBool False)], last_source_id := 1,
             history := [Called_set_visible False, Called_set_visible False]\<rparr>"
    unfolding query_visibility_def query_visibility_cond
    by (simp add: w state1_eq state0_eq source_remove_def set_visible_def
        emit_dbus_signal_def)
  note h0 = hiding_delayed_not_doubled [of env0 state0 True False 0 "[]" env0]
  note h1 = hiding_delayed_not_doubled [of env0 state1 True True 1 "[]" env0]
  note h2 = hiding_delayed_not_doubled [of env0 state1 True False 1 "[]" env0]
  from h0 w i have "query_visibility env0 True True state0 =
      state0\<lparr>visibility_timeout := Some (Suc (last_source_id state0)),
          sources := sources state0 @ [(Suc (last_source_id state0), 2500)],
          last_source_id := Suc (last_source_id state0)\<rparr>"
    by (simp only: simp_thms)
  then have "visible (query_visibility env0 True True state0) = visible state0"
    and "sources (query_visibility env0 True True state0) = [(1, 2500)]"
    by (simp_all add: state0_eq)
  moreover from h1 w q have "query_visibility env0 True True state1 = state1"
    by (simp only: simp_thms if_False)
  moreover from h2 w q have "query_visibility env0 False True state1 = state1"
    by (simp only: simp_thms if_False)
  moreover from h1 p have "on_visibility_timeout env0 state1 =
     Inr (False, query_visibility env0 False True
             ((source_remove 1 state1)\<lparr>visibility_timeout := None\<rparr>))"
    by (simp only: simp_thms)
  ultimately show ?thesis using w i p q r by (simp only: simp_thms)
qed

end
